theory Spec2Isabelle
  imports Complex_Main
begin

section \<open>Benchmark regression gate\<close>

text \<open>
  A shallow embedding of \<^verbatim>\<open>.github/scripts/benchmark_regression_gate.py\<close>.

  Conventions of the model:
  \<^item> A parsed JSON document is a value of type \<open>json\<close>, as \<^verbatim>\<open>json.load\<close> returns it: a
    JSON integer is a Python int, any other JSON number a Python float. The association
    list of a \<open>JObj\<close> holds the items of the dict, one pair for each key, and is read
    with \<open>map_of\<close>.
  \<^item> A Python float is a value of type \<open>pyfloat\<close>: a finite double by the real number it
    stands for, negative zero, the two infinities, or NaN. Comparisons are exact. The
    roundings of the interpreter are not computed by the model: the results of float
    subtraction, division and multiplication, of the conversion of a large int, and of
    \<^verbatim>\<open>float\<close> on a string are the fields of the parameter \<open>p\<close>, and every theorem
    holds for every \<open>p\<close>.
  \<^item> Text is a list of pieces: literal bytes (UTF-8), and \<open>StrOf v\<close> for Python's
    \<^verbatim>\<open>str(v)\<close> of a JSON value, which the model leaves unevaluated.
  \<^item> What \<^verbatim>\<open>parse_args\<close> makes of the command line is an input of the model.
  \<^item> An exception that the source does not catch is the outcome \<open>Raise\<close>. The trace of a
    run holds its file operations and what it prints on the standard output, which takes
    UTF-8.
\<close>

subsection \<open>Data\<close>

datatype pyfloat = Finite real | NegZero | PosInf | NegInf | NaN

datatype json =
    JNull
  | JBool bool
  | JInt int
  | JFloat pyfloat
  | JStr string
  | JArr "json list"
  | JObj "(string \<times> json) list"

datatype py_error =
  AttributeError | TypeError | ValueError | KeyError | IndexError | OverflowError

text \<open>What a path holds: nothing, something that \<^verbatim>\<open>open\<close> or \<^verbatim>\<open>json.load\<close> rejects
  (with the text of the exception), or a document.\<close>

datatype 'a on_disk = Missing | Unreadable string | Parsed 'a

datatype piece = Lit string | StrOf json

type_synonym line = "piece list"

datatype category = Regression | SlowerWithinThreshold | Improvement | NewBenchmark

record buckets =
  regressions :: "line list"
  improvements :: "line list"
  new_benchmarks :: "line list"

record args =
  results_file :: string
  baseline_file :: string
  regression_threshold :: pyfloat

text \<open>Lines 13 to 17. \<^verbatim>\<open>parse_args\<close> ends the run with status 2 on a command line it
  rejects (no \<^verbatim>\<open>--results\<close>, a threshold that \<^verbatim>\<open>float\<close> rejects, an unknown
  argument); on \<^verbatim>\<open>-h\<close> it formats the help strings, and the one of line 16, which holds
  a bare per cent sign, makes that formatting raise ValueError; else it returns the
  arguments.\<close>

datatype cli = UsageError | HelpRequested | Namespace args

record world =
  results_doc :: "json on_disk"
  baseline_doc :: "json on_disk"

datatype event = Exists string | Open string | Print line

datatype outcome = Return int | Raise py_error | SystemExit int

record run =
  trace :: "event list"
  outcome :: outcome

text \<open>The float primitives of the interpreter, for IEEE 754 binary64: \<open>None\<close> is
  OverflowError for \<open>float_of_int\<close> and ValueError for \<open>float_of_str\<close>.\<close>

record py =
  float_of_int :: "int \<Rightarrow> pyfloat option"
  float_of_str :: "string \<Rightarrow> pyfloat option"
  fsub :: "pyfloat \<Rightarrow> pyfloat \<Rightarrow> pyfloat"
  fdiv :: "pyfloat \<Rightarrow> pyfloat \<Rightarrow> pyfloat"
  fmul :: "pyfloat \<Rightarrow> pyfloat \<Rightarrow> pyfloat"

subsection \<open>Floats\<close>

text \<open>The place of a float in the order: NaN has none, the zeros share theirs.\<close>

definition fl_key :: "pyfloat \<Rightarrow> (int \<times> real) option" where
  "fl_key f =
     (case f of
        Finite x \<Rightarrow> Some (0, x)
      | NegZero \<Rightarrow> Some (0, 0)
      | PosInf \<Rightarrow> Some (1, 0)
      | NegInf \<Rightarrow> Some (- 1, 0)
      | NaN \<Rightarrow> None)"

text \<open>\<^verbatim>\<open>a > b\<close> and \<^verbatim>\<open>a == b\<close>.\<close>

definition fl_gt :: "pyfloat \<Rightarrow> pyfloat \<Rightarrow> bool" where
  "fl_gt a b =
     (case fl_key a of
        None \<Rightarrow> False
      | Some (i, x) \<Rightarrow>
          (case fl_key b of
             None \<Rightarrow> False
           | Some (j, y) \<Rightarrow> j < i \<or> (i = j \<and> y < x)))"

definition fl_eq :: "pyfloat \<Rightarrow> pyfloat \<Rightarrow> bool" where
  "fl_eq a b = (case fl_key a of None \<Rightarrow> False | Some k \<Rightarrow> fl_key b = Some k)"

text \<open>\<^verbatim>\<open>abs(a)\<close>.\<close>

definition fl_abs :: "pyfloat \<Rightarrow> pyfloat" where
  "fl_abs f =
     (case f of
        Finite x \<Rightarrow> Finite \<bar>x\<bar>
      | NegZero \<Rightarrow> Finite 0
      | PosInf \<Rightarrow> PosInf
      | NegInf \<Rightarrow> PosInf
      | NaN \<Rightarrow> NaN)"

text \<open>The float of an int: exact up to \<open>2 ^ 53\<close>, rounded or refused beyond.\<close>

definition int_float :: "py \<Rightarrow> int \<Rightarrow> pyfloat option" where
  "int_float p n = (if \<bar>n\<bar> \<le> 2 ^ 53 then Some (Finite (of_int n)) else float_of_int p n)"

subsection \<open>Python built-ins\<close>

text \<open>\<^verbatim>\<open>x.get(k, dflt)\<close>: only a dict has the method.\<close>

definition py_get :: "json \<Rightarrow> string \<Rightarrow> json \<Rightarrow> py_error + json" where
  "py_get x k dflt =
     (case x of
        JObj d \<Rightarrow> Inr (case map_of d k of None \<Rightarrow> dflt | Some v \<Rightarrow> v)
      | _ \<Rightarrow> Inl AttributeError)"

text \<open>\<^verbatim>\<open>for item in x\<close>: a list gives its elements, a dict its keys, a string its
  characters; nothing else is iterable.\<close>

definition py_iter :: "json \<Rightarrow> py_error + json list" where
  "py_iter x =
     (case x of
        JArr xs \<Rightarrow> Inr xs
      | JObj d \<Rightarrow> Inr (map (\<lambda>kv. JStr (fst kv)) d)
      | JStr s \<Rightarrow> Inr (map (\<lambda>c. JStr [c]) s)
      | _ \<Rightarrow> Inl TypeError)"

text \<open>The number a value is in a comparison, which Python makes exactly: a bool is an
  int, and an int is compared with a float without rounding.\<close>

definition exact_num :: "json \<Rightarrow> pyfloat option" where
  "exact_num v =
     (case v of
        JBool b \<Rightarrow> Some (Finite (if b then 1 else 0))
      | JInt n \<Rightarrow> Some (Finite (of_int n))
      | JFloat f \<Rightarrow> Some f
      | _ \<Rightarrow> None)"

text \<open>\<^verbatim>\<open>v == 0\<close> and \<^verbatim>\<open>v > 0\<close>, false of what is not a number.\<close>

definition py_eq_zero :: "json \<Rightarrow> bool" where
  "py_eq_zero v = (case exact_num v of None \<Rightarrow> False | Some f \<Rightarrow> fl_eq f (Finite 0))"

definition py_gt_zero :: "json \<Rightarrow> bool" where
  "py_gt_zero v = (case exact_num v of None \<Rightarrow> False | Some f \<Rightarrow> fl_gt f (Finite 0))"

text \<open>The float that a value becomes as an operand of float arithmetic or under a format
  of type \<^verbatim>\<open>f\<close>.\<close>

definition as_float :: "py \<Rightarrow> json \<Rightarrow> py_error + pyfloat" where
  "as_float p v =
     (case v of
        JBool b \<Rightarrow> Inr (Finite (if b then 1 else 0))
      | JInt n \<Rightarrow> (case int_float p n of None \<Rightarrow> Inl OverflowError | Some f \<Rightarrow> Inr f)
      | JFloat f \<Rightarrow> Inr f
      | _ \<Rightarrow> Inl TypeError)"

text \<open>\<^verbatim>\<open>float(v)\<close>.\<close>

definition py_float :: "py \<Rightarrow> json \<Rightarrow> py_error + pyfloat" where
  "py_float p v =
     (case v of
        JStr s \<Rightarrow> (case float_of_str p s of None \<Rightarrow> Inl ValueError | Some f \<Rightarrow> Inr f)
      | _ \<Rightarrow> as_float p v)"

text \<open>\<^verbatim>\<open>a == b\<close> on parsed JSON values.\<close>

definition num_eq :: "pyfloat \<Rightarrow> json \<Rightarrow> bool" where
  "num_eq f b = (case exact_num b of None \<Rightarrow> False | Some g \<Rightarrow> fl_eq f g)"

fun py_eq :: "json \<Rightarrow> json \<Rightarrow> bool"
  and py_eq_list :: "json list \<Rightarrow> json list \<Rightarrow> bool"
  and py_eq_items :: "(string \<times> json) list \<Rightarrow> (string \<times> json) list \<Rightarrow> bool" where
  "py_eq JNull b = (b = JNull)"
| "py_eq (JBool x) b = num_eq (Finite (if x then 1 else 0)) b"
| "py_eq (JInt n) b = num_eq (Finite (of_int n)) b"
| "py_eq (JFloat f) b = num_eq f b"
| "py_eq (JStr s) b = (b = JStr s)"
| "py_eq (JArr xs) b = (case b of JArr ys \<Rightarrow> py_eq_list xs ys | _ \<Rightarrow> False)"
| "py_eq (JObj d) b =
     (case b of JObj e \<Rightarrow> length d = length e \<and> py_eq_items d e | _ \<Rightarrow> False)"
| "py_eq_list [] ys = (ys = [])"
| "py_eq_list (x # xs) ys =
     (case ys of [] \<Rightarrow> False | y # ys' \<Rightarrow> py_eq x y \<and> py_eq_list xs ys')"
| "py_eq_items [] e = True"
| "py_eq_items (kv # d) e =
     ((case map_of e (fst kv) of None \<Rightarrow> False | Some w \<Rightarrow> py_eq (snd kv) w)
      \<and> py_eq_items d e)"

text \<open>\<^verbatim>\<open>t in s\<close> for two strings.\<close>

fun is_substring :: "string \<Rightarrow> string \<Rightarrow> bool" where
  "is_substring t [] = (t = [])"
| "is_substring t (c # s) = (take (length t) (c # s) = t \<or> is_substring t s)"

text \<open>A list or a dict is not hashable.\<close>

definition hashable :: "json \<Rightarrow> bool" where
  "hashable k = (case k of JArr _ \<Rightarrow> False | JObj _ \<Rightarrow> False | _ \<Rightarrow> True)"

text \<open>Whether \<open>k\<close> is a key of the dict \<open>d\<close>, whose keys are strings.\<close>

definition is_key :: "(string \<times> json) list \<Rightarrow> json \<Rightarrow> bool" where
  "is_key d k = (case k of JStr s \<Rightarrow> map_of d s \<noteq> None | _ \<Rightarrow> False)"

text \<open>\<^verbatim>\<open>k in c\<close>: a dict hashes the key, a list compares it with each element, a string
  takes only a string, and nothing else is a container.\<close>

definition py_in :: "json \<Rightarrow> json \<Rightarrow> py_error + bool" where
  "py_in k c =
     (case c of
        JObj d \<Rightarrow> (if hashable k then Inr (is_key d k) else Inl TypeError)
      | JArr xs \<Rightarrow> Inr (list_ex (py_eq k) xs)
      | JStr s \<Rightarrow> (case k of JStr t \<Rightarrow> Inr (is_substring t s) | _ \<Rightarrow> Inl TypeError)
      | _ \<Rightarrow> Inl TypeError)"

text \<open>\<^verbatim>\<open>xs[i]\<close> for a list: a negative index counts from the end.\<close>

definition list_index :: "json list \<Rightarrow> int \<Rightarrow> py_error + json" where
  "list_index xs i =
     (if 0 \<le> i \<and> i < int (length xs) then Inr (xs ! nat i)
      else if i < 0 \<and> - int (length xs) \<le> i then Inr (xs ! nat (int (length xs) + i))
      else Inl IndexError)"

text \<open>\<^verbatim>\<open>c[k]\<close>, for a key that \<^verbatim>\<open>k in c\<close> has accepted: a dict looks the key
  up, a list takes an int or a bool as an index, and a string, which has only accepted a
  string, refuses it as an index.\<close>

definition py_subscript :: "json \<Rightarrow> json \<Rightarrow> py_error + json" where
  "py_subscript c k =
     (case c of
        JObj d \<Rightarrow>
          (if hashable k then
             (case k of
                JStr s \<Rightarrow> (case map_of d s of None \<Rightarrow> Inl KeyError | Some v \<Rightarrow> Inr v)
              | _ \<Rightarrow> Inl KeyError)
           else Inl TypeError)
      | JArr xs \<Rightarrow>
          (case k of
             JInt i \<Rightarrow> list_index xs i
           | JBool b \<Rightarrow> list_index xs (if b then 1 else 0)
           | _ \<Rightarrow> Inl TypeError)
      | _ \<Rightarrow> Inl TypeError)"

subsection \<open>Fixed-point formatting\<close>

text \<open>\<^verbatim>\<open>format(x, ".df")\<close>: the exact value of the double rounded half to even at \<open>d\<close>
  decimals, with the sign of a negative \<open>x\<close>.\<close>

definition round_half_even :: "real \<Rightarrow> int" where
  "round_half_even x =
     (let f = \<lfloor>x\<rfloor>; r = x - of_int f
      in if r < 1 / 2 then f
         else if 1 / 2 < r then f + 1
         else if even f then f else f + 1)"

fun digits :: "nat \<Rightarrow> nat \<Rightarrow> string" where
  "digits 0 n = []"
| "digits (Suc k) n = digits k (n div 10) @ [''0123456789'' ! (n mod 10)]"

fun ndigits :: "nat \<Rightarrow> nat \<Rightarrow> nat" where
  "ndigits 0 n = 1"
| "ndigits (Suc k) n = (if n < 10 then 1 else Suc (ndigits k (n div 10)))"

definition dec :: "nat \<Rightarrow> string" where
  "dec n = digits (ndigits n n) n"

definition fmt_real :: "nat \<Rightarrow> real \<Rightarrow> string" where
  "fmt_real d x =
     (let n = nat (round_half_even (\<bar>x\<bar> * 10 ^ d))
      in (if x < 0 then ''-'' else [])
         @ dec (n div 10 ^ d)
         @ (if d = 0 then [] else ''.'' @ digits d (n mod 10 ^ d)))"

definition fmt_f :: "nat \<Rightarrow> pyfloat \<Rightarrow> string" where
  "fmt_f d f =
     (case f of
        Finite x \<Rightarrow> fmt_real d x
      | NegZero \<Rightarrow> ''-'' @ fmt_real d 0
      | PosInf \<Rightarrow> ''inf''
      | NegInf \<Rightarrow> ''-inf''
      | NaN \<Rightarrow> ''nan'')"

subsection \<open>The classifier: the body of the loop\<close>

text \<open>The non-ASCII marks of the report, as UTF-8.\<close>

definition cross_mark :: string where
  "cross_mark = [CHR 0xE2, CHR 0x9D, CHR 0x8C]"

definition check_mark :: string where
  "check_mark = [CHR 0xE2, CHR 0x9C, CHR 0x93]"

definition warning_sign :: string where
  "warning_sign = [CHR 0xE2, CHR 0x9A, CHR 0xA0, CHR 0xEF, CHR 0xB8, CHR 0x8F]"

text \<open>The change of lines 54 to 57 is the int 0 or a computed float.\<close>

datatype change = IntZero | Float pyfloat

text \<open>The value of a change in a comparison.\<close>

definition change_val :: "change \<Rightarrow> pyfloat" where
  "change_val c = (case c of IntZero \<Rightarrow> Finite 0 | Float f \<Rightarrow> f)"

text \<open>\<^verbatim>\<open>change*100\<close> and \<^verbatim>\<open>abs(change)*100\<close>: the int 0 stays the int 0, which the
  format turns into the float 0.\<close>

definition percent :: "py \<Rightarrow> change \<Rightarrow> pyfloat" where
  "percent p c = (case c of IntZero \<Rightarrow> Finite 0 | Float f \<Rightarrow> fmul p f (Finite 100))"

definition abs_percent :: "py \<Rightarrow> change \<Rightarrow> pyfloat" where
  "abs_percent p c =
     (case c of IntZero \<Rightarrow> Finite 0 | Float f \<Rightarrow> fmul p (fl_abs f) (Finite 100))"

text \<open>
  Lines 54 to 57. A baseline value that is not a number, or that is an int too large for
  a float, compares unequal to 0 and then fails in the subtraction; a value equal to 0
  always has a float. The second component is that float, which line 62 formats.
\<close>

definition relative_change :: "py \<Rightarrow> pyfloat \<Rightarrow> json \<Rightarrow> py_error + change \<times> pyfloat" where
  "relative_change p mean baseline_mean =
     (case as_float p baseline_mean of
        Inl e \<Rightarrow> Inl e
      | Inr b \<Rightarrow>
          Inr (if py_eq_zero baseline_mean then IntZero
               else Float (fdiv p (fsub p mean b) b), b))"

text \<open>Lines 59 to 71: the branch taken, named by its category, and the message built.\<close>

definition compare ::
  "py \<Rightarrow> pyfloat \<Rightarrow> json \<Rightarrow> pyfloat \<Rightarrow> pyfloat \<Rightarrow> change \<Rightarrow> category \<times> line" where
  "compare p thr method mean b change =
     (if fl_gt (change_val change) thr then
        (Regression,
         [StrOf method,
          Lit ('': '' @ fmt_f 1 (percent p change) @ ''% regression ''
               @ ''(baseline: '' @ fmt_f 0 b @ ''ns, current: '' @ fmt_f 0 mean @ ''ns)'')])
      else if fl_gt (change_val change) (Finite 0) then
        (SlowerWithinThreshold,
         [StrOf method,
          Lit ('': '' @ fmt_f 1 (percent p change) @ ''% slower (within threshold)'')])
      else
        (Improvement,
         [StrOf method,
          Lit ('': '' @ fmt_f 1 (abs_percent p change) @ ''% faster (improvement)'')]))"

text \<open>Line 49: \<^verbatim>\<open>item.get("method")\<close>, None when the field is absent.\<close>

definition entry_method :: "json \<Rightarrow> py_error + json" where
  "entry_method item = py_get item ''method'' JNull"

text \<open>Line 50: \<^verbatim>\<open>float(item.get("mean", 0))\<close>.\<close>

definition entry_mean :: "py \<Rightarrow> json \<Rightarrow> py_error + pyfloat" where
  "entry_mean p item =
     (case py_get item ''mean'' (JInt 0) of
        Inl e \<Rightarrow> Inl e
      | Inr v \<Rightarrow> py_float p v)"

text \<open>Lines 49 to 73.\<close>

definition classify_item ::
  "py \<Rightarrow> pyfloat \<Rightarrow> json \<Rightarrow> json \<Rightarrow> py_error + category \<times> line" where
  "classify_item p thr baseline item =
     (case entry_method item of
        Inl e \<Rightarrow> Inl e
      | Inr method \<Rightarrow>
     (case entry_mean p item of
        Inl e \<Rightarrow> Inl e
      | Inr mean \<Rightarrow>
     (case py_in method baseline of
        Inl e \<Rightarrow> Inl e
      | Inr False \<Rightarrow>
          Inr (NewBenchmark,
               [StrOf method, Lit ('': new benchmark (mean: '' @ fmt_f 0 mean @ ''ns)'')])
      | Inr True \<Rightarrow>
     (case py_subscript baseline method of
        Inl e \<Rightarrow> Inl e
      | Inr baseline_mean \<Rightarrow>
     (case relative_change p mean baseline_mean of
        Inl e \<Rightarrow> Inl e
      | Inr (change, b) \<Rightarrow> Inr (compare p thr method mean b change))))))"

definition append_msg :: "category \<Rightarrow> line \<Rightarrow> buckets \<Rightarrow> buckets" where
  "append_msg c msg b =
     (case c of
        Regression \<Rightarrow> b\<lparr>regressions := regressions b @ [msg]\<rparr>
      | SlowerWithinThreshold \<Rightarrow> b\<lparr>improvements := improvements b @ [msg]\<rparr>
      | Improvement \<Rightarrow> b\<lparr>improvements := improvements b @ [msg]\<rparr>
      | NewBenchmark \<Rightarrow> b\<lparr>new_benchmarks := new_benchmarks b @ [msg]\<rparr>)"

text \<open>The loop of line 48 over the items, threading the three lists.\<close>

fun process :: "py \<Rightarrow> pyfloat \<Rightarrow> json \<Rightarrow> json list \<Rightarrow> buckets \<Rightarrow> py_error + buckets" where
  "process p thr baseline [] b = Inr b"
| "process p thr baseline (item # items) b =
     (case classify_item p thr baseline item of
        Inl e \<Rightarrow> Inl e
      | Inr (c, msg) \<Rightarrow> process p thr baseline items (append_msg c msg b))"

definition empty_buckets :: buckets where
  "empty_buckets = \<lparr>regressions = [], improvements = [], new_benchmarks = []\<rparr>"

text \<open>Line 48: \<^verbatim>\<open>results.get("benchmarks", [])\<close> and its iteration.\<close>

definition benchmark_items :: "json \<Rightarrow> py_error + json list" where
  "benchmark_items results =
     (case py_get results ''benchmarks'' (JArr []) of
        Inl e \<Rightarrow> Inl e
      | Inr v \<Rightarrow> py_iter v)"

subsection \<open>The report\<close>

definition rule70 :: string where
  "rule70 = replicate 70 CHR ''=''"

definition newline :: string where
  "newline = [CHR 0x0A]"

definition indent :: "line \<Rightarrow> event" where
  "indent msg = Print (Lit ''  '' # msg)"

definition report :: "py \<Rightarrow> pyfloat \<Rightarrow> buckets \<Rightarrow> event list" where
  "report p thr b =
     [Print [Lit (newline @ rule70)],
      Print [Lit ''BENCHMARK COMPARISON REPORT''],
      Print [Lit rule70]]
     @ (if improvements b \<noteq> [] then
          Print [Lit (newline @ check_mark @ '' Improvements/Within Threshold:'')]
          # map indent (improvements b)
        else [])
     @ (if new_benchmarks b \<noteq> [] then
          Print [Lit (newline @ ''+ New Benchmarks:'')] # map indent (new_benchmarks b)
        else [])
     @ (if regressions b \<noteq> [] then
          Print [Lit (newline @ cross_mark @ '' REGRESSIONS DETECTED (> ''
                      @ fmt_f 0 (fmul p thr (Finite 100)) @ ''% threshold):'')]
          # map indent (regressions b)
          @ [Print [Lit (newline @ rule70)]]
        else
          [Print [Lit (newline @ check_mark @ '' All benchmarks within acceptable threshold'')],
           Print [Lit (rule70 @ newline)]])"

subsection \<open>main\<close>

text \<open>Lines 34 to 41: the events of loading the baseline, and the baseline, the empty
  dict unless the file loads.\<close>

definition load_baseline :: "args \<Rightarrow> world \<Rightarrow> event list \<times> json" where
  "load_baseline a w =
     (case baseline_doc w of
        Missing \<Rightarrow> ([Exists (baseline_file a)], JObj [])
      | Unreadable e \<Rightarrow>
          ([Exists (baseline_file a), Open (baseline_file a),
            Print [Lit (warning_sign @ ''  Warning: Could not load baseline: '' @ e)]],
           JObj [])
      | Parsed baseline \<Rightarrow> ([Exists (baseline_file a), Open (baseline_file a)], baseline))"

text \<open>Lines 12 to 99.\<close>

definition main :: "py \<Rightarrow> cli \<Rightarrow> world \<Rightarrow> run" where
  "main p cmd w =
     (case cmd of
        UsageError \<Rightarrow> \<lparr>trace = [], outcome = SystemExit 2\<rparr>
      | HelpRequested \<Rightarrow> \<lparr>trace = [], outcome = Raise ValueError\<rparr>
      | Namespace a \<Rightarrow>
     (case results_doc w of
        Missing \<Rightarrow>
          \<lparr>trace = [Exists (results_file a),
                    Print [Lit (cross_mark @ '' Benchmark results file not found: ''
                                @ results_file a)]],
           outcome = Return 1\<rparr>
      | Unreadable e \<Rightarrow>
          \<lparr>trace = [Exists (results_file a), Open (results_file a),
                    Print [Lit (cross_mark @ '' Failed to load results: '' @ e)]],
           outcome = Return 1\<rparr>
      | Parsed results \<Rightarrow>
          (let loaded = [Exists (results_file a), Open (results_file a)]
                        @ fst (load_baseline a w);
               baseline = snd (load_baseline a w)
           in case benchmark_items results of
                Inl e \<Rightarrow> \<lparr>trace = loaded, outcome = Raise e\<rparr>
              | Inr items \<Rightarrow>
           (case process p (regression_threshold a) baseline items empty_buckets of
                Inl e \<Rightarrow> \<lparr>trace = loaded, outcome = Raise e\<rparr>
              | Inr b \<Rightarrow>
                  \<lparr>trace = loaded @ report p (regression_threshold a) b,
                   outcome = Return (if regressions b \<noteq> [] then 1 else 0)\<rparr>))))"

text \<open>Lines 101 and 102: the status of the process. \<^verbatim>\<open>sys.exit\<close> gives the value that
  main returns; the interpreter ends with status 1 on an exception that nothing catches,
  and with the status of a SystemExit.\<close>

definition exit_code :: "run \<Rightarrow> int" where
  "exit_code r = (case outcome r of Return n \<Rightarrow> n | Raise e \<Rightarrow> 1 | SystemExit n \<Rightarrow> n)"

subsection \<open>Notions of the specification\<close>

text \<open>The classification of a list of entries, entry by entry, in the order of the
  input; the first entry that raises ends it.\<close>

fun classify_all ::
  "py \<Rightarrow> pyfloat \<Rightarrow> json \<Rightarrow> json list \<Rightarrow> py_error + (category \<times> line) list" where
  "classify_all p thr baseline [] = Inr []"
| "classify_all p thr baseline (item # items) =
     (case classify_item p thr baseline item of
        Inl e \<Rightarrow> Inl e
      | Inr r \<Rightarrow>
     (case classify_all p thr baseline items of
        Inl e \<Rightarrow> Inl e
      | Inr rs \<Rightarrow> Inr (r # rs)))"

text \<open>The messages of the entries of some categories, in the order of the entries.\<close>

definition messages_in :: "category list \<Rightarrow> (category \<times> line) list \<Rightarrow> line list" where
  "messages_in cs rs = map snd (filter (\<lambda>r. fst r \<in> set cs) rs)"

text \<open>A section of the report: nothing when there is no message, else the header and
  one indented line for each message.\<close>

definition section_of :: "string \<Rightarrow> line list \<Rightarrow> event list" where
  "section_of header msgs =
     (if msgs = [] then [] else Print [Lit header] # map indent msgs)"





text \<open>The message of line 73.\<close>

definition new_message :: "json \<Rightarrow> pyfloat \<Rightarrow> line" where
  "new_message method mean =
     [StrOf method, Lit ('': new benchmark (mean: '' @ fmt_f 0 mean @ ''ns)'')]"

text \<open>An entry that is a dict with a hashable method and a mean that \<^verbatim>\<open>float\<close>
  accepts, and whose method is not a key of the dict \<open>d\<close>; and the message of line 73
  for it.\<close>

definition without_baseline :: "py \<Rightarrow> (string \<times> json) list \<Rightarrow> json \<Rightarrow> bool" where
  "without_baseline p d item =
     (case entry_method item of
        Inl e \<Rightarrow> False
      | Inr method \<Rightarrow>
          (case entry_mean p item of
             Inl e \<Rightarrow> False
           | Inr mean \<Rightarrow> hashable method \<and> \<not> is_key d method))"

definition new_line :: "py \<Rightarrow> json \<Rightarrow> line" where
  "new_line p item =
     (case entry_method item of
        Inl e \<Rightarrow> []
      | Inr method \<Rightarrow>
          (case entry_mean p item of Inl e \<Rightarrow> [] | Inr mean \<Rightarrow> new_message method mean))"

text \<open>The classification that a run computes from its parsed results document.\<close>

definition classification ::
  "py \<Rightarrow> args \<Rightarrow> world \<Rightarrow> json \<Rightarrow> py_error + (category \<times> line) list" where
  "classification p a w results =
     (case benchmark_items results of
        Inl e \<Rightarrow> Inl e
      | Inr items \<Rightarrow> classify_all p (regression_threshold a) (snd (load_baseline a w)) items)"

text \<open>One classified entry put into its list.\<close>

definition fill_step :: "buckets \<Rightarrow> category \<times> line \<Rightarrow> buckets" where
  "fill_step b r = append_msg (fst r) (snd r) b"

text \<open>The first lines of every report.\<close>

definition banner :: "event list" where
  "banner =
     [Print [Lit (newline @ rule70)],
      Print [Lit ''BENCHMARK COMPARISON REPORT''],
      Print [Lit rule70]]"

text \<open>The last lines of a report without regression.\<close>

definition all_clear :: "event list" where
  "all_clear =
     [Print [Lit (newline @ check_mark @ '' All benchmarks within acceptable threshold'')],
      Print [Lit (rule70 @ newline)]]"

subsection \<open>Concrete runs\<close>

text \<open>Float primitives that compute exactly on finite values and reject every string.
  Binary64 gives the same results wherever the exact result is a double, as it is in the
  runs below.\<close>

definition exact2 :: "(real \<Rightarrow> real \<Rightarrow> real) \<Rightarrow> pyfloat \<Rightarrow> pyfloat \<Rightarrow> pyfloat" where
  "exact2 f a b =
     (case a of
        Finite x \<Rightarrow> (case b of Finite y \<Rightarrow> Finite (f x y) | _ \<Rightarrow> NaN)
      | _ \<Rightarrow> NaN)"

definition exact_py :: py where
  "exact_py =
     \<lparr>float_of_int = (\<lambda>n. Some (Finite (of_int n))),
      float_of_str = (\<lambda>s. None),
      fsub = exact2 (\<lambda>x y. x - y),
      fdiv = exact2 (\<lambda>x y. x / y),
      fmul = exact2 (\<lambda>x y. x * y)\<rparr>"

definition args0 :: "real \<Rightarrow> args" where
  "args0 thr =
     \<lparr>results_file = ''results.json'', baseline_file = ''benchmark-baselines.json'',
      regression_threshold = Finite thr\<rparr>"

definition entry :: "string \<Rightarrow> json \<Rightarrow> json" where
  "entry name mean = JObj [(''method'', JStr name), (''mean'', mean)]"

definition results_of :: "json list \<Rightarrow> json" where
  "results_of items = JObj [(''benchmarks'', JArr items)]"

text \<open>Four entries, one of each category at the threshold 0.125.\<close>

definition mixed_items :: "json list" where
  "mixed_items =
     [entry ''a'' (JInt 150), entry ''b'' (JFloat (Finite (225 / 2))), entry ''c'' (JInt 42),
      entry ''d'' (JInt 75)]"

definition mixed_baseline :: json where
  "mixed_baseline = JObj [(''a'', JInt 100), (''b'', JInt 100), (''d'', JInt 100)]"

definition mixed_world :: world where
  "mixed_world = \<lparr>results_doc = Parsed (results_of mixed_items),
                  baseline_doc = Parsed mixed_baseline\<rparr>"


definition new_world :: world where
  "new_world = \<lparr>results_doc = Parsed (results_of [entry ''bar'' (JInt 42)]),
                baseline_doc = Parsed (JObj [])\<rparr>"

definition degraded_world :: world where
  "degraded_world = \<lparr>results_doc = Parsed (results_of [entry ''foo'' (JInt 150)]),
                     baseline_doc = Unreadable ''Expecting value''\<rparr>"

section \<open>Properties\<close>

subsection \<open>Auxiliary facts\<close>

lemma fmt_real_1_zero: "fmt_real 1 0 = ''0.0''"
  by (simp add: fmt_real_def round_half_even_def dec_def)

lemma fmt_real_Suc_0_zero: "fmt_real (Suc 0) 0 = ''0.0''"
  using fmt_real_1_zero by simp

lemma fmt_f_1_zero: "fmt_f 1 (Finite 0) = ''0.0''"
  by (simp add: fmt_f_def fmt_real_Suc_0_zero)

lemma fmt_f_Suc_0_zero: "fmt_f (Suc 0) (Finite 0) = ''0.0''"
  using fmt_f_1_zero by simp

lemma ndigits_numeral:
  "ndigits (numeral k) n = (if n < 10 then 1 else Suc (ndigits (pred_numeral k) (n div 10)))"
  unfolding numeral_eq_Suc [of k] by (rule ndigits.simps(2))

lemma digits_numeral:
  "digits (numeral k) n = digits (pred_numeral k) (n div 10) @ [''0123456789'' ! (n mod 10)]"
  unfolding numeral_eq_Suc [of k] by (rule digits.simps(2))

lemmas fmt_eval = fmt_f_def fmt_real_def round_half_even_def dec_def ndigits_numeral
  digits_numeral

lemmas float_eval = fl_gt_def fl_eq_def fl_key_def fl_abs_def exact_num_def py_eq_zero_def
  py_gt_zero_def as_float_def int_float_def py_float_def change_val_def percent_def
  abs_percent_def exact_py_def exact2_def

lemmas item_eval = classify_item_def entry_method_def entry_mean_def entry_def py_get_def
  py_in_def hashable_def is_key_def py_subscript_def relative_change_def compare_def

lemma fl_gt_irrefl: "\<not> fl_gt a a"
  by (simp add: fl_gt_def split: option.splits)

lemma fl_eq_gt_cong: "fl_eq a b \<Longrightarrow> fl_gt a c = fl_gt b c"
  by (auto simp: fl_eq_def fl_gt_def split: option.splits)

lemma fl_eq_not_gt: "fl_eq a b \<Longrightarrow> \<not> fl_gt a b"
  by (auto simp: fl_eq_def fl_gt_def split: option.splits)

lemma fl_gt_Finite: "fl_gt (Finite x) (Finite y) = (y < x)"
  by (simp add: fl_gt_def fl_key_def)

lemma py_gt_zero_not_eq_zero: "py_gt_zero v \<Longrightarrow> \<not> py_eq_zero v"
  by (auto simp: py_gt_zero_def py_eq_zero_def dest: fl_eq_not_gt split: option.splits)

lemma py_eq_zero_as_float: "py_eq_zero v \<Longrightarrow> \<exists>b. as_float p v = Inr b"
  by (auto simp: py_eq_zero_def exact_num_def as_float_def int_float_def fl_eq_def fl_key_def
      split: json.splits)

lemma entry_method_entry: "entry_method (entry name v) = Inr (JStr name)"
  by (simp add: entry_method_def entry_def py_get_def)

lemma entry_mean_entry: "entry_mean p (entry name v) = py_float p v"
  by (simp add: entry_mean_def entry_def py_get_def)

lemma py_float_small_int: "\<bar>n\<bar> \<le> 2 ^ 53 \<Longrightarrow> py_float p (JInt n) = Inr (Finite (of_int n))"
  by (simp add: py_float_def as_float_def int_float_def)

lemma classify_item_present:
  assumes "entry_method item = Inr (JStr s)" and "entry_mean p item = Inr mean"
    and "map_of d s = Some v" and "as_float p v = Inr b"
  shows "classify_item p thr (JObj d) item =
           Inr (compare p thr (JStr s) mean b
                  (if py_eq_zero v then IntZero else Float (fdiv p (fsub p mean b) b)))"
  using assms
  by (simp add: classify_item_def py_in_def hashable_def is_key_def py_subscript_def
      relative_change_def)

lemma classify_item_absent:
  assumes "entry_method item = Inr method" and "entry_mean p item = Inr mean"
    and "hashable method" and "\<not> is_key d method"
  shows "classify_item p thr (JObj d) item = Inr (NewBenchmark, new_message method mean)"
  using assms by (simp add: classify_item_def py_in_def new_message_def)

lemma fst_compare:
  "fst (compare p thr method mean b change) =
     (if fl_gt (change_val change) thr then Regression
      else if fl_gt (change_val change) (Finite 0) then SlowerWithinThreshold
      else Improvement)"
  by (simp add: compare_def)

lemma compare_zero_change:
  "compare p thr method mean b IntZero =
     (if fl_gt (Finite 0) thr then
        (Regression,
         [StrOf method,
          Lit ('': 0.0% regression (baseline: '' @ fmt_f 0 b @ ''ns, current: ''
               @ fmt_f 0 mean @ ''ns)'')])
      else (Improvement, [StrOf method, Lit '': 0.0% faster (improvement)'']))"
  using fmt_f_1_zero
  by (simp add: compare_def change_val_def percent_def abs_percent_def fl_gt_irrefl)

lemma classify_item_raise_mean:
  assumes "entry_method item = Inr method" and "entry_mean p item = Inl e"
  shows "classify_item p thr baseline item = Inl e"
  using assms by (simp add: classify_item_def)

lemma process_classify_all:
  "process p thr baseline items b =
     (case classify_all p thr baseline items of
        Inl e \<Rightarrow> Inl e
      | Inr rs \<Rightarrow> Inr (foldl fill_step b rs))"
  by (induction items arbitrary: b) (auto simp: fill_step_def split: sum.splits)

lemma regressions_foldl:
  "regressions (foldl fill_step b rs) = regressions b @ messages_in [Regression] rs"
  by (induction rs arbitrary: b)
     (auto simp: fill_step_def append_msg_def messages_in_def split: category.splits)

lemma improvements_foldl:
  "improvements (foldl fill_step b rs) =
     improvements b @ messages_in [SlowerWithinThreshold, Improvement] rs"
  by (induction rs arbitrary: b)
     (auto simp: fill_step_def append_msg_def messages_in_def split: category.splits)

lemma new_benchmarks_foldl:
  "new_benchmarks (foldl fill_step b rs) = new_benchmarks b @ messages_in [NewBenchmark] rs"
  by (induction rs arbitrary: b)
     (auto simp: fill_step_def append_msg_def messages_in_def split: category.splits)

lemma foldl_fill_step_buckets:
  "foldl fill_step empty_buckets rs =
     \<lparr>regressions = messages_in [Regression] rs,
      improvements = messages_in [SlowerWithinThreshold, Improvement] rs,
      new_benchmarks = messages_in [NewBenchmark] rs\<rparr>"
  using regressions_foldl [of empty_buckets rs] improvements_foldl [of empty_buckets rs]
    new_benchmarks_foldl [of empty_buckets rs]
  by (simp add: empty_buckets_def)

lemma classify_all_length:
  "classify_all p thr baseline items = Inr rs \<Longrightarrow> length rs = length items"
  by (induction items arbitrary: rs) (auto split: sum.splits)

lemma classify_all_nth:
  "classify_all p thr baseline items = Inr rs \<Longrightarrow> i < length items \<Longrightarrow>
     classify_item p thr baseline (items ! i) = Inr (rs ! i)"
proof (induction items arbitrary: rs i)
  case Nil
  then show ?case by simp
next
  case (Cons item items)
  then show ?case by (cases i) (auto split: sum.splits)
qed


lemma main_parsed:
  assumes "results_doc w = Parsed results" and "classification p a w results = Inr rs"
  shows "main p (Namespace a) w =
     \<lparr>trace = [Exists (results_file a), Open (results_file a)] @ fst (load_baseline a w)
               @ report p (regression_threshold a) (foldl fill_step empty_buckets rs),
      outcome = Return (if messages_in [Regression] rs \<noteq> [] then 1 else 0)\<rparr>"
  using assms
  by (auto simp: main_def classification_def process_classify_all regressions_foldl
      empty_buckets_def Let_def split: sum.splits)

lemma main_raise:
  assumes "results_doc w = Parsed results" and "classification p a w results = Inl e"
  shows "main p (Namespace a) w =
     \<lparr>trace = [Exists (results_file a), Open (results_file a)] @ fst (load_baseline a w),
      outcome = Raise e\<rparr>"
  using assms
  by (auto simp: main_def classification_def process_classify_all Let_def split: sum.splits)



lemma benchmark_items_results_of: "benchmark_items (results_of items) = Inr items"
  by (simp add: benchmark_items_def results_of_def py_get_def py_iter_def)

lemma load_baseline_snd:
  "snd (load_baseline a w) = (case baseline_doc w of Parsed d \<Rightarrow> d | _ \<Rightarrow> JObj [])"
  by (simp add: load_baseline_def split: on_disk.splits)

lemma classification_aligned:
  assumes "classification p a w results = Inr rs"
  shows "\<exists>items. benchmark_items results = Inr items \<and> length rs = length items
           \<and> (\<forall>i < length items.
                 classify_item p (regression_threshold a) (snd (load_baseline a w)) (items ! i)
                   = Inr (rs ! i))"
  using assms
  by (auto simp: classification_def classify_all_length classify_all_nth split: sum.splits)

lemma mixed_classify_all:
  "classify_all exact_py (Finite (1 / 8)) mixed_baseline mixed_items =
     Inr [(Regression,
           [StrOf (JStr ''a''),
            Lit '': 50.0% regression (baseline: 100ns, current: 150ns)'']),
          (SlowerWithinThreshold,
           [StrOf (JStr ''b''), Lit '': 12.5% slower (within threshold)'']),
          (NewBenchmark, [StrOf (JStr ''c''), Lit '': new benchmark (mean: 42ns)'']),
          (Improvement, [StrOf (JStr ''d''), Lit '': 25.0% faster (improvement)''])]"
  by (simp add: mixed_items_def mixed_baseline_def item_eval float_eval fmt_eval)

lemma mixed_classification:
  "classification exact_py (args0 (1 / 8)) mixed_world (results_of mixed_items) =
     Inr [(Regression,
           [StrOf (JStr ''a''),
            Lit '': 50.0% regression (baseline: 100ns, current: 150ns)'']),
          (SlowerWithinThreshold,
           [StrOf (JStr ''b''), Lit '': 12.5% slower (within threshold)'']),
          (NewBenchmark, [StrOf (JStr ''c''), Lit '': new benchmark (mean: 42ns)'']),
          (Improvement, [StrOf (JStr ''d''), Lit '': 25.0% faster (improvement)''])]"
  using mixed_classify_all
  by (simp add: classification_def benchmark_items_results_of load_baseline_snd args0_def
      mixed_world_def)

lemma without_baseline_classify:
  assumes "without_baseline p d item"
  shows "classify_item p thr (JObj d) item = Inr (NewBenchmark, new_line p item)"
proof -
  from assms obtain meth mu where
    m: "entry_method item = Inr meth" and e: "entry_mean p item = Inr mu"
    and h: "hashable meth" and k: "\<not> is_key d meth"
    by (auto simp: without_baseline_def split: sum.splits)
  then show ?thesis
    by (simp add: classify_item_absent new_line_def)
qed

lemma without_baseline_classify_all:
  assumes "\<forall>item \<in> set items. without_baseline p d item"
  shows "classify_all p thr (JObj d) items
           = Inr (map (\<lambda>item. (NewBenchmark, new_line p item)) items)"
  using assms by (induction items) (simp_all add: without_baseline_classify)

lemma messages_in_all_new:
  "messages_in [NewBenchmark] (map (\<lambda>item. (NewBenchmark, f item)) items) = map f items"
  "messages_in [Regression] (map (\<lambda>item. (NewBenchmark, f item)) items) = []"
  "messages_in [SlowerWithinThreshold, Improvement]
     (map (\<lambda>item. (NewBenchmark, f item)) items) = []"
  by (induction items) (simp_all add: messages_in_def)

lemma without_baseline_process:
  assumes "\<forall>item \<in> set items. without_baseline p d item"
  shows "process p thr (JObj d) items empty_buckets
           = Inr \<lparr>regressions = [], improvements = [],
                  new_benchmarks = map (new_line p) items\<rparr>"
  using without_baseline_classify_all [OF assms, of thr]
  by (simp add: process_classify_all foldl_fill_step_buckets messages_in_all_new)

lemma report_all_new:
  "report p thr \<lparr>regressions = [], improvements = [], new_benchmarks = msgs\<rparr>
     = banner @ section_of (newline @ ''+ New Benchmarks:'') msgs @ all_clear"
  by (simp add: report_def banner_def section_of_def all_clear_def)

lemma without_baseline_main:
  assumes "results_doc w = Parsed results" and "benchmark_items results = Inr items"
    and "snd (load_baseline a w) = JObj d"
    and "\<forall>item \<in> set items. without_baseline p d item"
  shows "main p (Namespace a) w =
           \<lparr>trace = [Exists (results_file a), Open (results_file a)] @ fst (load_baseline a w)
                     @ banner
                     @ section_of (newline @ ''+ New Benchmarks:'') (map (new_line p) items)
                     @ all_clear,
            outcome = Return 0\<rparr>"
  using assms(1-3) without_baseline_process [OF assms(4), of "regression_threshold a"]
  by (simp add: main_def Let_def report_all_new)




subsection \<open>Strictness of the threshold\<close>

text \<open>
  Claim C1, as the code has it. Take an entry whose mean \<^verbatim>\<open>float\<close> accepts and
  whose method is a key of the baseline table, with a baseline mean that is greater than 0
  and has a float \<open>b\<close>. The entry is classified Regression if and only if the change that the
  program computes in its float arithmetic, \<open>(mean - b) / b\<close>, is strictly greater than
  the threshold. When the computed change equals the threshold, the entry is not a
  Regression: it is SlowerWithinThreshold when the threshold is greater than 0, and
  Improvement otherwise (the second test of the code is \<open>change > 0\<close>).
\<close>

theorem regression_iff_change_exceeds_threshold:
  assumes "entry_method item = Inr (JStr s)" and "entry_mean p item = Inr mean"
    and "map_of d s = Some v" and "py_gt_zero v" and "as_float p v = Inr b"
  shows "\<exists>c msg. classify_item p thr (JObj d) item = Inr (c, msg)
           \<and> (c = Regression \<longleftrightarrow> fl_gt (fdiv p (fsub p mean b) b) thr)
           \<and> (fl_eq (fdiv p (fsub p mean b) b) thr \<longrightarrow>
                c = (if fl_gt thr (Finite 0) then SlowerWithinThreshold else Improvement))"
proof -
  let ?change = "fdiv p (fsub p mean b) b"
  let ?r = "compare p thr (JStr s) mean b (Float ?change)"
  have nz: "\<not> py_eq_zero v"
    using assms(4) by (rule py_gt_zero_not_eq_zero)
  have "classify_item p thr (JObj d) item = Inr ?r"
    using classify_item_present [OF assms(1-3) assms(5)] nz by simp
  then have "classify_item p thr (JObj d) item = Inr (fst ?r, snd ?r)" by simp
  moreover have "fst ?r = Regression \<longleftrightarrow> fl_gt ?change thr"
    by (simp add: fst_compare change_val_def)
  moreover have "fl_eq ?change thr \<longrightarrow>
      fst ?r = (if fl_gt thr (Finite 0) then SlowerWithinThreshold else Improvement)"
    by (auto simp: fst_compare change_val_def dest: fl_eq_not_gt fl_eq_gt_cong)
  ultimately show ?thesis by blast
qed

text \<open>Baseline 100, mean 150, threshold 0.125: the change is 0.5.\<close>

theorem regression_iff_change_exceeds_threshold_witness:
  "entry_method (entry ''foo'' (JInt 150)) = Inr (JStr ''foo'')
   \<and> entry_mean exact_py (entry ''foo'' (JInt 150)) = Inr (Finite 150)
   \<and> map_of [(''foo'', JInt 100)] ''foo'' = Some (JInt 100)
   \<and> py_gt_zero (JInt 100)
   \<and> as_float exact_py (JInt 100) = Inr (Finite 100)
   \<and> fdiv exact_py (fsub exact_py (Finite 150) (Finite 100)) (Finite 100) = Finite (1 / 2)
   \<and> (\<exists>msg. classify_item exact_py (Finite (1 / 8)) (JObj [(''foo'', JInt 100)])
                (entry ''foo'' (JInt 150)) = Inr (Regression, msg))"
proof -
  have h1: "entry_method (entry ''foo'' (JInt 150)) = Inr (JStr ''foo'')"
    by (simp add: entry_method_entry)
  have h2: "entry_mean exact_py (entry ''foo'' (JInt 150)) = Inr (Finite 150)"
    by (simp add: entry_mean_entry py_float_small_int)
  have h3: "map_of [(''foo'', JInt 100)] ''foo'' = Some (JInt 100)" by simp
  have h4: "py_gt_zero (JInt 100)" by (simp add: float_eval)
  have h5: "as_float exact_py (JInt 100) = Inr (Finite 100)" by (simp add: float_eval)
  have c: "fdiv exact_py (fsub exact_py (Finite 150) (Finite 100)) (Finite 100) = Finite (1 / 2)"
    by (simp add: float_eval)
  from regression_iff_change_exceeds_threshold [OF h1 h2 h3 h4 h5, of "Finite (1 / 8)"]
  have "\<exists>msg. classify_item exact_py (Finite (1 / 8)) (JObj [(''foo'', JInt 100)])
                (entry ''foo'' (JInt 150)) = Inr (Regression, msg)"
    by (auto simp: c fl_gt_Finite)
  with h1 h2 h3 h4 h5 c show ?thesis by blast
qed

text \<open>
  With the threshold 0, a mean equal to its baseline of 100 has a change equal to the
  threshold, and the code reports it as an improvement, not as slower within the
  threshold.
\<close>

theorem change_equal_to_zero_threshold_counterexample:
  "py_gt_zero (JInt 100)
   \<and> fl_eq (fdiv exact_py (fsub exact_py (Finite 100) (Finite 100)) (Finite 100)) (Finite 0)
   \<and> classify_item exact_py (Finite 0) (JObj [(''foo'', JInt 100)]) (entry ''foo'' (JInt 100))
       = Inr (Improvement, [StrOf (JStr ''foo''), Lit '': 0.0% faster (improvement)''])
   \<and> Improvement \<noteq> SlowerWithinThreshold"
  by (simp add: item_eval float_eval fmt_f_Suc_0_zero)

subsection \<open>A missing results file\<close>

text \<open>
  Claim C7. When the command line is accepted and the results path does not exist, the
  program prints its diagnostic and exits with code 1; the only file operation of the run
  is the existence test of the results path, so no file is opened, the baseline file
  included.
\<close>

theorem missing_results_stops_before_baseline:
  assumes "results_doc w = Missing"
  shows "exit_code (main p (Namespace a) w) = 1
         \<and> outcome (main p (Namespace a) w) = Return 1
         \<and> trace (main p (Namespace a) w) =
             [Exists (results_file a),
              Print [Lit (cross_mark @ '' Benchmark results file not found: '' @ results_file a)]]
         \<and> (\<forall>ev \<in> set (trace (main p (Namespace a) w)). \<forall>path. ev \<noteq> Open path)"
  using assms by (simp add: main_def exit_code_def)

theorem missing_results_stops_before_baseline_witness:
  "results_doc \<lparr>results_doc = Missing, baseline_doc = Parsed (JObj [(''foo'', JInt 100)])\<rparr>
     = Missing
   \<and> exit_code (main exact_py (Namespace (args0 (1 / 8)))
         \<lparr>results_doc = Missing, baseline_doc = Parsed (JObj [(''foo'', JInt 100)])\<rparr>) = 1
   \<and> Open ''benchmark-baselines.json'' \<notin> set (trace (main exact_py (Namespace (args0 (1 / 8)))
         \<lparr>results_doc = Missing, baseline_doc = Parsed (JObj [(''foo'', JInt 100)])\<rparr>))
   \<and> Exists ''benchmark-baselines.json'' \<notin> set (trace (main exact_py (Namespace (args0 (1 / 8)))
         \<lparr>results_doc = Missing, baseline_doc = Parsed (JObj [(''foo'', JInt 100)])\<rparr>))"
proof -
  have h: "results_doc \<lparr>results_doc = Missing,
                        baseline_doc = Parsed (JObj [(''foo'', JInt 100)])\<rparr> = Missing"
    by simp
  from missing_results_stops_before_baseline [OF h, of exact_py "args0 (1 / 8)"]
  show ?thesis using h by (simp add: args0_def)
qed

subsection \<open>The exit code\<close>




subsection \<open>A baseline mean of zero\<close>

text \<open>
  Claim C3, as the code has it. For an entry whose method is a key of the baseline table
  with a baseline mean equal to 0, the computed change is exactly 0, the int, whatever the
  current mean is. The entry is then classified Regression exactly when the threshold is
  negative: for every threshold that is 0 or more it is never a Regression.
\<close>

theorem zero_baseline_forces_zero_change:
  assumes "entry_method item = Inr (JStr s)" and "entry_mean p item = Inr mean"
    and "map_of d s = Some v" and "py_eq_zero v"
  shows "(\<exists>b. relative_change p mean v = Inr (IntZero, b))
         \<and> (\<exists>c msg. classify_item p thr (JObj d) item = Inr (c, msg)
               \<and> (c = Regression \<longleftrightarrow> fl_gt (Finite 0) thr))"
proof -
  from assms(4) obtain b where b: "as_float p v = Inr b"
    using py_eq_zero_as_float by blast
  then have "relative_change p mean v = Inr (IntZero, b)"
    using assms(4) by (simp add: relative_change_def)
  moreover have "classify_item p thr (JObj d) item
                   = Inr (compare p thr (JStr s) mean b IntZero)"
    using classify_item_present [OF assms(1-3) b] assms(4) by simp
  moreover have "fst (compare p thr (JStr s) mean b IntZero) = Regression
                   \<longleftrightarrow> fl_gt (Finite 0) thr"
    by (simp add: fst_compare change_val_def fl_gt_irrefl)
  ultimately show ?thesis by (metis prod.collapse)
qed

theorem zero_baseline_forces_zero_change_witness:
  "entry_method (entry ''foo'' (JInt 5000)) = Inr (JStr ''foo'')
   \<and> entry_mean exact_py (entry ''foo'' (JInt 5000)) = Inr (Finite 5000)
   \<and> map_of [(''foo'', JInt 0)] ''foo'' = Some (JInt 0)
   \<and> py_eq_zero (JInt 0)
   \<and> relative_change exact_py (Finite 5000) (JInt 0) = Inr (IntZero, Finite 0)
   \<and> \<not> fl_gt (Finite 0) (Finite (1 / 8))
   \<and> (\<exists>c msg. classify_item exact_py (Finite (1 / 8)) (JObj [(''foo'', JInt 0)])
                  (entry ''foo'' (JInt 5000)) = Inr (c, msg)
         \<and> c \<noteq> Regression)"
proof -
  have h1: "entry_method (entry ''foo'' (JInt 5000)) = Inr (JStr ''foo'')"
    by (simp add: entry_method_entry)
  have h2: "entry_mean exact_py (entry ''foo'' (JInt 5000)) = Inr (Finite 5000)"
    by (simp add: entry_mean_entry py_float_small_int)
  have h3: "map_of [(''foo'', JInt 0)] ''foo'' = Some (JInt 0)" by simp
  have h4: "py_eq_zero (JInt 0)" by (simp add: float_eval)
  have r: "relative_change exact_py (Finite 5000) (JInt 0) = Inr (IntZero, Finite 0)"
    by (simp add: relative_change_def float_eval)
  have g: "\<not> fl_gt (Finite 0) (Finite (1 / 8))" by (simp add: fl_gt_Finite)
  from zero_baseline_forces_zero_change [OF h1 h2 h3 h4, of "Finite (1 / 8)"] g
  have "\<exists>c msg. classify_item exact_py (Finite (1 / 8)) (JObj [(''foo'', JInt 0)])
                  (entry ''foo'' (JInt 5000)) = Inr (c, msg) \<and> c \<noteq> Regression"
    by auto
  with h1 h2 h3 h4 r g show ?thesis by blast
qed

text \<open>With the threshold -0.0625, the forced change 0 exceeds the threshold.\<close>

theorem zero_baseline_negative_threshold_counterexample:
  "py_eq_zero (JInt 0)
   \<and> classify_item exact_py (Finite (- (1 / 16))) (JObj [(''foo'', JInt 0)])
        (entry ''foo'' (JInt 5))
       = Inr (Regression,
              [StrOf (JStr ''foo''),
               Lit '': 0.0% regression (baseline: 0ns, current: 5ns)''])"
  by (simp add: item_eval float_eval fmt_eval)

text \<open>
  Claim C10, as the code has it. For an entry whose method is a key of the baseline table
  with a baseline mean equal to 0: when the threshold is 0 or more, the entry goes to the
  list of improvements with the message "{method}: 0.0% faster (improvement)", whatever
  the current mean is; for every threshold it is neither SlowerWithinThreshold nor
  NewBenchmark.
\<close>

theorem zero_baseline_reported_as_improvement:
  assumes "entry_method item = Inr (JStr s)" and "entry_mean p item = Inr mean"
    and "map_of d s = Some v" and "py_eq_zero v"
  shows "(\<not> fl_gt (Finite 0) thr \<longrightarrow>
            classify_item p thr (JObj d) item
              = Inr (Improvement, [StrOf (JStr s), Lit '': 0.0% faster (improvement)''])
            \<and> process p thr (JObj d) [item] empty_buckets
              = Inr \<lparr>regressions = [],
                     improvements = [[StrOf (JStr s), Lit '': 0.0% faster (improvement)'']],
                     new_benchmarks = []\<rparr>)
         \<and> (\<exists>c msg. classify_item p thr (JObj d) item = Inr (c, msg)
               \<and> c \<noteq> SlowerWithinThreshold \<and> c \<noteq> NewBenchmark)"
proof -
  from assms(4) obtain b where b: "as_float p v = Inr b"
    using py_eq_zero_as_float by blast
  have ci: "classify_item p thr (JObj d) item = Inr (compare p thr (JStr s) mean b IntZero)"
    using classify_item_present [OF assms(1-3) b] assms(4) by simp
  have "\<not> fl_gt (Finite 0) thr \<longrightarrow>
            classify_item p thr (JObj d) item
              = Inr (Improvement, [StrOf (JStr s), Lit '': 0.0% faster (improvement)''])
            \<and> process p thr (JObj d) [item] empty_buckets
              = Inr \<lparr>regressions = [],
                     improvements = [[StrOf (JStr s), Lit '': 0.0% faster (improvement)'']],
                     new_benchmarks = []\<rparr>"
    by (simp add: ci compare_zero_change append_msg_def empty_buckets_def)
  moreover have "\<exists>c msg. classify_item p thr (JObj d) item = Inr (c, msg)
               \<and> c \<noteq> SlowerWithinThreshold \<and> c \<noteq> NewBenchmark"
    by (simp add: ci compare_zero_change)
  ultimately show ?thesis by blast
qed

theorem zero_baseline_reported_as_improvement_witness:
  "entry_method (entry ''bar'' (JInt 123456)) = Inr (JStr ''bar'')
   \<and> entry_mean exact_py (entry ''bar'' (JInt 123456)) = Inr (Finite 123456)
   \<and> map_of [(''bar'', JInt 0)] ''bar'' = Some (JInt 0)
   \<and> py_eq_zero (JInt 0)
   \<and> \<not> fl_gt (Finite 0) (Finite (1 / 8))
   \<and> classify_item exact_py (Finite (1 / 8)) (JObj [(''bar'', JInt 0)])
        (entry ''bar'' (JInt 123456))
       = Inr (Improvement, [StrOf (JStr ''bar''), Lit '': 0.0% faster (improvement)''])
   \<and> process exact_py (Finite (1 / 8)) (JObj [(''bar'', JInt 0)])
        [entry ''bar'' (JInt 123456)] empty_buckets
       = Inr \<lparr>regressions = [],
              improvements = [[StrOf (JStr ''bar''), Lit '': 0.0% faster (improvement)'']],
              new_benchmarks = []\<rparr>"
proof -
  have h1: "entry_method (entry ''bar'' (JInt 123456)) = Inr (JStr ''bar'')"
    by (simp add: entry_method_entry)
  have h2: "entry_mean exact_py (entry ''bar'' (JInt 123456)) = Inr (Finite 123456)"
    by (simp add: entry_mean_entry py_float_small_int)
  have h3: "map_of [(''bar'', JInt 0)] ''bar'' = Some (JInt 0)" by simp
  have h4: "py_eq_zero (JInt 0)" by (simp add: float_eval)
  have h5: "\<not> fl_gt (Finite 0) (Finite (1 / 8))" by (simp add: fl_gt_Finite)
  from zero_baseline_reported_as_improvement [OF h1 h2 h3 h4, of "Finite (1 / 8)"] h5
  show ?thesis using h1 h2 h3 h4 by blast
qed

text \<open>With the threshold -0.125, the entry goes to the list of regressions.\<close>

theorem zero_baseline_regression_bucket_counterexample:
  "py_eq_zero (JInt 0)
   \<and> process exact_py (Finite (- (1 / 8))) (JObj [(''bar'', JInt 0)])
        [entry ''bar'' (JInt 250)] empty_buckets
       = Inr \<lparr>regressions =
                [[StrOf (JStr ''bar''),
                  Lit '': 0.0% regression (baseline: 0ns, current: 250ns)'']],
              improvements = [], new_benchmarks = []\<rparr>"
  by (simp add: item_eval float_eval fmt_eval append_msg_def empty_buckets_def)

subsection \<open>Entries without a baseline\<close>

text \<open>
  Claim C4, as the code has it. An entry that is a dict with a hashable method and a mean
  that \<^verbatim>\<open>float\<close> accepts, and whose method is not a key of the baseline table, is
  classified NewBenchmark, with the message of line 73. Consequently, when the results
  load and every entry of the list is such an entry, the loop puts every entry into the
  list of new benchmarks, the report lists them all, and main returns 0, the exit code of
  the process. Nothing is a key of the empty table.
\<close>

theorem unknown_methods_are_new_benchmarks:
  "(without_baseline p d item \<longrightarrow>
      classify_item p thr (JObj d) item = Inr (NewBenchmark, new_line p item))
   \<and> (results_doc w = Parsed results \<and> benchmark_items results = Inr items
       \<and> snd (load_baseline a w) = JObj d
       \<and> (\<forall>item \<in> set items. without_baseline p d item)
       \<longrightarrow> process p (regression_threshold a) (JObj d) items empty_buckets
             = Inr \<lparr>regressions = [], improvements = [],
                    new_benchmarks = map (new_line p) items\<rparr>
           \<and> main p (Namespace a) w =
               \<lparr>trace = [Exists (results_file a), Open (results_file a)]
                         @ fst (load_baseline a w) @ banner
                         @ section_of (newline @ ''+ New Benchmarks:'')
                             (map (new_line p) items)
                         @ all_clear,
                outcome = Return 0\<rparr>
           \<and> exit_code (main p (Namespace a) w) = 0)
   \<and> \<not> is_key [] k"
proof (intro conjI impI)
  assume "without_baseline p d item"
  then show "classify_item p thr (JObj d) item = Inr (NewBenchmark, new_line p item)"
    by (rule without_baseline_classify)
next
  assume h: "results_doc w = Parsed results \<and> benchmark_items results = Inr items
       \<and> snd (load_baseline a w) = JObj d
       \<and> (\<forall>item \<in> set items. without_baseline p d item)"
  then show "process p (regression_threshold a) (JObj d) items empty_buckets
             = Inr \<lparr>regressions = [], improvements = [],
                    new_benchmarks = map (new_line p) items\<rparr>"
    by (simp add: without_baseline_process)
  from h show m: "main p (Namespace a) w =
               \<lparr>trace = [Exists (results_file a), Open (results_file a)]
                         @ fst (load_baseline a w) @ banner
                         @ section_of (newline @ ''+ New Benchmarks:'')
                             (map (new_line p) items)
                         @ all_clear,
                outcome = Return 0\<rparr>"
    using without_baseline_main [of w results items a d p] by blast
  then show "exit_code (main p (Namespace a) w) = 0"
    by (simp add: exit_code_def)
next
  show "\<not> is_key [] k"
    by (simp add: is_key_def split: json.splits)
qed

text \<open>Scenario D of the specification: an empty baseline, one entry of mean 42.\<close>

theorem unknown_methods_are_new_benchmarks_witness:
  "without_baseline exact_py [] (entry ''bar'' (JInt 42))
   \<and> results_doc new_world = Parsed (results_of [entry ''bar'' (JInt 42)])
   \<and> benchmark_items (results_of [entry ''bar'' (JInt 42)]) = Inr [entry ''bar'' (JInt 42)]
   \<and> snd (load_baseline (args0 (1 / 8)) new_world) = JObj []
   \<and> classify_item exact_py (Finite (1 / 8)) (JObj []) (entry ''bar'' (JInt 42))
       = Inr (NewBenchmark, [StrOf (JStr ''bar''), Lit '': new benchmark (mean: 42ns)''])
   \<and> main exact_py (Namespace (args0 (1 / 8))) new_world =
       \<lparr>trace =
          [Exists ''results.json'', Open ''results.json'',
           Exists ''benchmark-baselines.json'', Open ''benchmark-baselines.json'',
           Print [Lit (newline @ rule70)],
           Print [Lit ''BENCHMARK COMPARISON REPORT''],
           Print [Lit rule70],
           Print [Lit (newline @ ''+ New Benchmarks:'')],
           Print [Lit ''  '', StrOf (JStr ''bar''), Lit '': new benchmark (mean: 42ns)''],
           Print [Lit (newline @ check_mark @ '' All benchmarks within acceptable threshold'')],
           Print [Lit (rule70 @ newline)]],
        outcome = Return 0\<rparr>
   \<and> exit_code (main exact_py (Namespace (args0 (1 / 8))) new_world) = 0"
proof -
  let ?item = "entry ''bar'' (JInt 42)"
  let ?a = "args0 (1 / 8)"
  have h1: "without_baseline exact_py [] ?item"
    by (simp add: without_baseline_def entry_method_entry entry_mean_entry py_float_small_int
        hashable_def is_key_def)
  have h2: "results_doc new_world = Parsed (results_of [?item])"
    by (simp add: new_world_def)
  have h3: "benchmark_items (results_of [?item]) = Inr [?item]"
    by (simp add: benchmark_items_results_of)
  have h4: "snd (load_baseline ?a new_world) = JObj []"
    by (simp add: load_baseline_snd new_world_def)
  have h5: "\<forall>item \<in> set [?item]. without_baseline exact_py [] item"
    using h1 by simp
  have n: "new_line exact_py ?item = [StrOf (JStr ''bar''), Lit '': new benchmark (mean: 42ns)'']"
    by (simp add: new_line_def new_message_def entry_method_entry entry_mean_entry
        py_float_small_int fmt_eval)
  have l: "fst (load_baseline ?a new_world) =
             [Exists ''benchmark-baselines.json'', Open ''benchmark-baselines.json'']"
    by (simp add: load_baseline_def new_world_def args0_def)
  have r: "results_file ?a = ''results.json''" by (simp add: args0_def)
  from unknown_methods_are_new_benchmarks
         [of exact_py "[]" ?item "Finite (1 / 8)" new_world "results_of [?item]" "[?item]" ?a]
       h1 h2 h3 h4 h5
  have "classify_item exact_py (Finite (1 / 8)) (JObj []) ?item
          = Inr (NewBenchmark, new_line exact_py ?item)"
    and "main exact_py (Namespace ?a) new_world =
               \<lparr>trace = [Exists (results_file ?a), Open (results_file ?a)]
                         @ fst (load_baseline ?a new_world) @ banner
                         @ section_of (newline @ ''+ New Benchmarks:'')
                             (map (new_line exact_py) [?item])
                         @ all_clear,
                outcome = Return 0\<rparr>"
    and "exit_code (main exact_py (Namespace ?a) new_world) = 0"
    by blast+
  then show ?thesis
    using h1 h2 h3 h4
    by (simp add: n l r banner_def section_of_def all_clear_def indent_def)
qed

text \<open>
  With the empty baseline, an entry whose mean is null and an entry whose method is a list
  are not classified: \<^verbatim>\<open>float(None)\<close> and the hashing of the list raise TypeError, and
  the run ends with status 1.
\<close>

theorem unprocessable_entry_is_not_new_counterexample:
  "\<not> is_key [] (JStr ''bar'')
   \<and> classify_item exact_py (Finite (1 / 8)) (JObj []) (entry ''bar'' JNull) = Inl TypeError
   \<and> outcome (main exact_py (Namespace (args0 (1 / 8)))
        \<lparr>results_doc = Parsed (results_of [entry ''bar'' JNull]),
         baseline_doc = Parsed (JObj [])\<rparr>) = Raise TypeError
   \<and> exit_code (main exact_py (Namespace (args0 (1 / 8)))
        \<lparr>results_doc = Parsed (results_of [entry ''bar'' JNull]),
         baseline_doc = Parsed (JObj [])\<rparr>) = 1
   \<and> \<not> is_key [] (JArr [JStr ''bar''])
   \<and> classify_item exact_py (Finite (1 / 8)) (JObj [])
        (JObj [(''method'', JArr [JStr ''bar'']), (''mean'', JInt 42)]) = Inl TypeError"
proof -
  let ?w = "\<lparr>results_doc = Parsed (results_of [entry ''bar'' JNull]),
             baseline_doc = Parsed (JObj [])\<rparr>"
  have c: "classification exact_py (args0 (1 / 8)) ?w (results_of [entry ''bar'' JNull])
             = Inl TypeError"
    by (simp add: classification_def benchmark_items_results_of load_baseline_snd args0_def
        item_eval float_eval)
  have "outcome (main exact_py (Namespace (args0 (1 / 8))) ?w) = Raise TypeError"
    and "exit_code (main exact_py (Namespace (args0 (1 / 8))) ?w) = 1"
    using c by (simp_all add: main_raise exit_code_def)
  then show ?thesis by (simp add: item_eval float_eval)
qed

subsection \<open>Absent fields\<close>

text \<open>
  Claim C5, as the code has it. For an entry that is a dict, with a baseline that is a
  dict: an absent method is read as None and carried through the classification, which
  then reports the entry as a new benchmark under the name None; the mean used is 0 when
  the field is absent; when the field is present the mean is \<^verbatim>\<open>float\<close> of its value, and
  when that conversion raises, the exception leaves the loop body: no default is
  substituted.
\<close>

theorem absent_method_and_mean_defaults:
  "(map_of d ''method'' = None \<longrightarrow>
      entry_method (JObj d) = Inr JNull
      \<and> (\<forall>mean. entry_mean p (JObj d) = Inr mean \<longrightarrow>
            classify_item p thr (JObj baseline) (JObj d)
              = Inr (NewBenchmark,
                     [StrOf JNull, Lit ('': new benchmark (mean: '' @ fmt_f 0 mean @ ''ns)'')])))
   \<and> (map_of d ''mean'' = None \<longrightarrow> entry_mean p (JObj d) = Inr (Finite 0))
   \<and> (\<forall>v. map_of d ''mean'' = Some v \<longrightarrow>
          entry_mean p (JObj d) = py_float p v
          \<and> (\<forall>e. py_float p v = Inl e \<longrightarrow>
                classify_item p thr (JObj baseline) (JObj d) = Inl e))"
proof (intro conjI impI allI)
  assume m: "map_of d ''method'' = None"
  then show em: "entry_method (JObj d) = Inr JNull"
    by (simp add: entry_method_def py_get_def)
  fix mean
  assume "entry_mean p (JObj d) = Inr mean"
  with em show "classify_item p thr (JObj baseline) (JObj d)
      = Inr (NewBenchmark,
             [StrOf JNull, Lit ('': new benchmark (mean: '' @ fmt_f 0 mean @ ''ns)'')])"
    using classify_item_absent [of "JObj d" JNull p mean baseline thr]
    by (simp add: hashable_def is_key_def new_message_def)
next
  assume "map_of d ''mean'' = None"
  then show "entry_mean p (JObj d) = Inr (Finite 0)"
    by (simp add: entry_mean_def py_get_def py_float_small_int)
next
  fix v
  assume v: "map_of d ''mean'' = Some v"
  then show ev: "entry_mean p (JObj d) = py_float p v"
    by (simp add: entry_mean_def py_get_def)
  fix e
  assume "py_float p v = Inl e"
  with ev have "entry_mean p (JObj d) = Inl e" by simp
  moreover have "\<exists>method. entry_method (JObj d) = Inr method"
    by (simp add: entry_method_def py_get_def)
  ultimately show "classify_item p thr (JObj baseline) (JObj d) = Inl e"
    using classify_item_raise_mean by blast
qed

theorem absent_method_and_mean_defaults_witness:
  "map_of [(''mean'', JInt 42)] ''method'' = None
   \<and> entry_method (JObj [(''mean'', JInt 42)]) = Inr JNull
   \<and> entry_mean exact_py (JObj [(''mean'', JInt 42)]) = Inr (Finite 42)
   \<and> classify_item exact_py (Finite (1 / 8)) (JObj [(''foo'', JInt 100)])
        (JObj [(''mean'', JInt 42)])
       = Inr (NewBenchmark, [StrOf JNull, Lit '': new benchmark (mean: 42ns)''])
   \<and> map_of [(''method'', JStr ''foo'')] ''mean'' = None
   \<and> entry_mean exact_py (JObj [(''method'', JStr ''foo'')]) = Inr (Finite 0)"
proof -
  have h1: "map_of [(''mean'', JInt 42)] ''method'' = None" by simp
  have h2: "entry_mean exact_py (JObj [(''mean'', JInt 42)]) = Inr (Finite 42)"
    by (simp add: entry_mean_def py_get_def py_float_small_int)
  have h3: "map_of [(''method'', JStr ''foo'')] ''mean'' = None" by simp
  have f: "fmt_f 0 (Finite 42) = ''42''" by (simp add: fmt_eval)
  from absent_method_and_mean_defaults
         [of "[(''mean'', JInt 42)]" exact_py "Finite (1 / 8)" "[(''foo'', JInt 100)]"]
       absent_method_and_mean_defaults
         [of "[(''method'', JStr ''foo'')]" exact_py "Finite (1 / 8)" "[(''foo'', JInt 100)]"]
       h1 h2 h3
  show ?thesis by (simp add: f)
qed

text \<open>An entry whose mean is null: \<^verbatim>\<open>float(None)\<close> raises TypeError, and the loop
  ends there.\<close>

theorem null_mean_raises_counterexample:
  "map_of [(''method'', JStr ''foo''), (''mean'', JNull)] ''mean'' = Some JNull
   \<and> entry_mean exact_py (JObj [(''method'', JStr ''foo''), (''mean'', JNull)]) = Inl TypeError
   \<and> classify_item exact_py (Finite (1 / 8)) (JObj [])
        (JObj [(''method'', JStr ''foo''), (''mean'', JNull)]) = Inl TypeError
   \<and> process exact_py (Finite (1 / 8)) (JObj [])
        [JObj [(''method'', JStr ''foo''), (''mean'', JNull)]] empty_buckets = Inl TypeError"
  by (simp add: item_eval float_eval)

subsection \<open>A baseline file that does not load\<close>

text \<open>
  Claim C6, as the code has it. When the command line is accepted, the results load and
  the baseline file exists but fails to load, the program prints the warning and goes on
  with the empty table: apart from the attempt to open the file and the warning, the run
  is the run of the same program without a baseline file (same remaining trace, same
  outcome). When every entry is a dict with a hashable method and a mean that
  \<^verbatim>\<open>float\<close> accepts, the loop puts every entry into the list of new benchmarks, the
  report lists them all, and main returns 0.
\<close>

theorem malformed_baseline_degrades_to_empty:
  assumes "results_doc w = Parsed results" and "baseline_doc w = Unreadable e"
  shows "load_baseline a w =
           ([Exists (baseline_file a), Open (baseline_file a),
             Print [Lit (warning_sign @ ''  Warning: Could not load baseline: '' @ e)]],
            JObj [])
         \<and> take 3 (trace (main p (Namespace a) (w\<lparr>baseline_doc := Missing\<rparr>))) =
             [Exists (results_file a), Open (results_file a), Exists (baseline_file a)]
         \<and> trace (main p (Namespace a) w) =
             [Exists (results_file a), Open (results_file a), Exists (baseline_file a),
              Open (baseline_file a),
              Print [Lit (warning_sign @ ''  Warning: Could not load baseline: '' @ e)]]
             @ drop 3 (trace (main p (Namespace a) (w\<lparr>baseline_doc := Missing\<rparr>)))
         \<and> outcome (main p (Namespace a) w)
             = outcome (main p (Namespace a) (w\<lparr>baseline_doc := Missing\<rparr>))
         \<and> (\<forall>items. benchmark_items results = Inr items
                \<and> (\<forall>item \<in> set items. without_baseline p [] item)
              \<longrightarrow> process p (regression_threshold a) (JObj []) items empty_buckets
                    = Inr \<lparr>regressions = [], improvements = [],
                           new_benchmarks = map (new_line p) items\<rparr>
                  \<and> main p (Namespace a) w =
                      \<lparr>trace =
                         [Exists (results_file a), Open (results_file a),
                          Exists (baseline_file a), Open (baseline_file a),
                          Print [Lit (warning_sign
                                      @ ''  Warning: Could not load baseline: '' @ e)]]
                         @ banner
                         @ section_of (newline @ ''+ New Benchmarks:'')
                             (map (new_line p) items)
                         @ all_clear,
                       outcome = Return 0\<rparr>)"
proof -
  let ?w' = "w\<lparr>baseline_doc := Missing\<rparr>"
  let ?warn = "Print [Lit (warning_sign @ ''  Warning: Could not load baseline: '' @ e)]"
  have l: "load_baseline a w =
             ([Exists (baseline_file a), Open (baseline_file a), ?warn], JObj [])"
    using assms(2) by (simp add: load_baseline_def)
  have l': "load_baseline a ?w' = ([Exists (baseline_file a)], JObj [])"
    by (simp add: load_baseline_def)
  have r': "results_doc ?w' = Parsed results" using assms(1) by simp
  have c: "classification p a w results = classification p a ?w' results"
    by (simp add: classification_def l l' split: sum.splits)
  have t: "take 3 (trace (main p (Namespace a) ?w')) =
             [Exists (results_file a), Open (results_file a), Exists (baseline_file a)]
         \<and> trace (main p (Namespace a) w) =
             [Exists (results_file a), Open (results_file a), Exists (baseline_file a),
              Open (baseline_file a), ?warn]
             @ drop 3 (trace (main p (Namespace a) ?w'))
         \<and> outcome (main p (Namespace a) w) = outcome (main p (Namespace a) ?w')"
  proof (cases "classification p a w results")
    case (Inl err)
    then show ?thesis
      using main_raise [OF assms(1) Inl] main_raise [OF r', of p a err] c
      by (simp add: l l')
  next
    case (Inr rs)
    then show ?thesis
      using main_parsed [OF assms(1) Inr] main_parsed [OF r', of p a rs] c
      by (simp add: l l')
  qed
  have n: "\<forall>items. benchmark_items results = Inr items
                \<and> (\<forall>item \<in> set items. without_baseline p [] item)
              \<longrightarrow> process p (regression_threshold a) (JObj []) items empty_buckets
                    = Inr \<lparr>regressions = [], improvements = [],
                           new_benchmarks = map (new_line p) items\<rparr>
                  \<and> main p (Namespace a) w =
                      \<lparr>trace =
                         [Exists (results_file a), Open (results_file a),
                          Exists (baseline_file a), Open (baseline_file a), ?warn]
                         @ banner
                         @ section_of (newline @ ''+ New Benchmarks:'')
                             (map (new_line p) items)
                         @ all_clear,
                       outcome = Return 0\<rparr>"
  proof (intro allI impI)
    fix items
    assume h: "benchmark_items results = Inr items
                \<and> (\<forall>item \<in> set items. without_baseline p [] item)"
    then have pr: "process p (regression_threshold a) (JObj []) items empty_buckets
                    = Inr \<lparr>regressions = [], improvements = [],
                           new_benchmarks = map (new_line p) items\<rparr>"
      by (simp add: without_baseline_process)
    moreover have "main p (Namespace a) w =
                      \<lparr>trace =
                         [Exists (results_file a), Open (results_file a),
                          Exists (baseline_file a), Open (baseline_file a), ?warn]
                         @ banner
                         @ section_of (newline @ ''+ New Benchmarks:'')
                             (map (new_line p) items)
                         @ all_clear,
                       outcome = Return 0\<rparr>"
      using without_baseline_main [of w results items a "[]" p] assms(1) h l by simp
    ultimately show "process p (regression_threshold a) (JObj []) items empty_buckets
                    = Inr \<lparr>regressions = [], improvements = [],
                           new_benchmarks = map (new_line p) items\<rparr>
                  \<and> main p (Namespace a) w =
                      \<lparr>trace =
                         [Exists (results_file a), Open (results_file a),
                          Exists (baseline_file a), Open (baseline_file a), ?warn]
                         @ banner
                         @ section_of (newline @ ''+ New Benchmarks:'')
                             (map (new_line p) items)
                         @ all_clear,
                       outcome = Return 0\<rparr>"
      by blast
  qed
  from l t n show ?thesis by blast
qed

theorem malformed_baseline_degrades_to_empty_witness:
  "results_doc degraded_world = Parsed (results_of [entry ''foo'' (JInt 150)])
   \<and> baseline_doc degraded_world = Unreadable ''Expecting value''
   \<and> benchmark_items (results_of [entry ''foo'' (JInt 150)]) = Inr [entry ''foo'' (JInt 150)]
   \<and> without_baseline exact_py [] (entry ''foo'' (JInt 150))
   \<and> main exact_py (Namespace (args0 (1 / 8))) degraded_world =
       \<lparr>trace =
          [Exists ''results.json'', Open ''results.json'',
           Exists ''benchmark-baselines.json'', Open ''benchmark-baselines.json'',
           Print [Lit (warning_sign @ ''  Warning: Could not load baseline: Expecting value'')],
           Print [Lit (newline @ rule70)],
           Print [Lit ''BENCHMARK COMPARISON REPORT''],
           Print [Lit rule70],
           Print [Lit (newline @ ''+ New Benchmarks:'')],
           Print [Lit ''  '', StrOf (JStr ''foo''), Lit '': new benchmark (mean: 150ns)''],
           Print [Lit (newline @ check_mark @ '' All benchmarks within acceptable threshold'')],
           Print [Lit (rule70 @ newline)]],
        outcome = Return 0\<rparr>
   \<and> outcome (main exact_py (Namespace (args0 (1 / 8))) degraded_world)
       = outcome (main exact_py (Namespace (args0 (1 / 8)))
                    (degraded_world\<lparr>baseline_doc := Missing\<rparr>))"
proof -
  let ?item = "entry ''foo'' (JInt 150)"
  let ?a = "args0 (1 / 8)"
  have h1: "results_doc degraded_world = Parsed (results_of [?item])"
    by (simp add: degraded_world_def)
  have h2: "baseline_doc degraded_world = Unreadable ''Expecting value''"
    by (simp add: degraded_world_def)
  have h3: "benchmark_items (results_of [?item]) = Inr [?item]"
    by (simp add: benchmark_items_results_of)
  have h4: "without_baseline exact_py [] ?item"
    by (simp add: without_baseline_def entry_method_entry entry_mean_entry py_float_small_int
        hashable_def is_key_def)
  have h5: "\<forall>item \<in> set [?item]. without_baseline exact_py [] item"
    using h4 by simp
  have n: "new_line exact_py ?item
             = [StrOf (JStr ''foo''), Lit '': new benchmark (mean: 150ns)'']"
    by (simp add: new_line_def new_message_def entry_method_entry entry_mean_entry
        py_float_small_int fmt_eval)
  have f: "results_file ?a = ''results.json''" "baseline_file ?a = ''benchmark-baselines.json''"
    by (simp_all add: args0_def)
  from malformed_baseline_degrades_to_empty [OF h1 h2, of ?a exact_py] h3 h5
  have "main exact_py (Namespace ?a) degraded_world =
                      \<lparr>trace =
                         [Exists (results_file ?a), Open (results_file ?a),
                          Exists (baseline_file ?a), Open (baseline_file ?a),
                          Print [Lit (warning_sign
                                      @ ''  Warning: Could not load baseline: ''
                                      @ ''Expecting value'')]]
                         @ banner
                         @ section_of (newline @ ''+ New Benchmarks:'')
                             (map (new_line exact_py) [?item])
                         @ all_clear,
                       outcome = Return 0\<rparr>"
    and "outcome (main exact_py (Namespace ?a) degraded_world)
       = outcome (main exact_py (Namespace ?a) (degraded_world\<lparr>baseline_doc := Missing\<rparr>))"
    by blast+
  then show ?thesis
    using h1 h2 h3 h4
    by (simp add: n f banner_def section_of_def all_clear_def indent_def)
qed

text \<open>
  With a baseline file that does not load and an entry whose mean is the string "n/a",
  the warning is printed and then \<^verbatim>\<open>float\<close> raises ValueError: the entry is not
  classified and nothing is reported. With a baseline file that does not load and no
  results file, the run ends before the baseline is looked at, without a warning.
\<close>

theorem malformed_baseline_unprocessable_entry_counterexample:
  "baseline_doc \<lparr>results_doc = Parsed (results_of [entry ''foo'' (JStr ''n/a'')]),
                 baseline_doc = Unreadable ''Expecting value''\<rparr>
     = Unreadable ''Expecting value''
   \<and> main exact_py (Namespace (args0 (1 / 8)))
        \<lparr>results_doc = Parsed (results_of [entry ''foo'' (JStr ''n/a'')]),
         baseline_doc = Unreadable ''Expecting value''\<rparr>
       = \<lparr>trace =
            [Exists ''results.json'', Open ''results.json'',
             Exists ''benchmark-baselines.json'', Open ''benchmark-baselines.json'',
             Print [Lit (warning_sign @ ''  Warning: Could not load baseline: Expecting value'')]],
          outcome = Raise ValueError\<rparr>
   \<and> process exact_py (Finite (1 / 8)) (JObj []) [entry ''foo'' (JStr ''n/a'')] empty_buckets
       = Inl ValueError
   \<and> main exact_py (Namespace (args0 (1 / 8)))
        \<lparr>results_doc = Missing, baseline_doc = Unreadable ''Expecting value''\<rparr>
       = \<lparr>trace =
            [Exists ''results.json'',
             Print [Lit (cross_mark @ '' Benchmark results file not found: results.json'')]],
          outcome = Return 1\<rparr>"
proof -
  let ?w = "\<lparr>results_doc = Parsed (results_of [entry ''foo'' (JStr ''n/a'')]),
             baseline_doc = Unreadable ''Expecting value''\<rparr>"
  have c: "classification exact_py (args0 (1 / 8)) ?w
             (results_of [entry ''foo'' (JStr ''n/a'')]) = Inl ValueError"
    by (simp add: classification_def benchmark_items_results_of load_baseline_snd args0_def
        item_eval float_eval)
  have "main exact_py (Namespace (args0 (1 / 8))) ?w
       = \<lparr>trace =
            [Exists ''results.json'', Open ''results.json'',
             Exists ''benchmark-baselines.json'', Open ''benchmark-baselines.json'',
             Print [Lit (warning_sign @ ''  Warning: Could not load baseline: Expecting value'')]],
          outcome = Raise ValueError\<rparr>"
    using main_raise [of ?w "results_of [entry ''foo'' (JStr ''n/a'')]" exact_py
        "args0 (1 / 8)" ValueError] c
    by (simp add: load_baseline_def args0_def)
  moreover have "main exact_py (Namespace (args0 (1 / 8)))
        \<lparr>results_doc = Missing, baseline_doc = Unreadable ''Expecting value''\<rparr>
       = \<lparr>trace =
            [Exists ''results.json'',
             Print [Lit (cross_mark @ '' Benchmark results file not found: results.json'')]],
          outcome = Return 1\<rparr>"
    by (simp add: main_def args0_def)
  ultimately show ?thesis by (simp add: item_eval float_eval)
qed

subsection \<open>The order of the report\<close>

text \<open>
  Claim C8. When the command line is accepted, the results load and the classification of
  the entries completes, what the program prints after loading is: the banner; then, if
  there is any, the section of the entries that are slower within the threshold or
  improved; then, if there is any, the section of the new benchmarks; then, if there is
  any regression, the section of the regressions, whose header names the threshold as a
  percentage, and a closing rule (else the closing lines of a run without regression). The
  messages of a section are the messages of its entries in the order of the
  classification, which is the order of the input list: the i-th classification is that of
  the i-th item.
\<close>

theorem report_sections_in_order:
  assumes "results_doc w = Parsed results" and "classification p a w results = Inr rs"
  shows "trace (main p (Namespace a) w) =
           [Exists (results_file a), Open (results_file a)] @ fst (load_baseline a w)
           @ [Print [Lit (newline @ rule70)],
              Print [Lit ''BENCHMARK COMPARISON REPORT''],
              Print [Lit rule70]]
           @ section_of (newline @ check_mark @ '' Improvements/Within Threshold:'')
               (messages_in [SlowerWithinThreshold, Improvement] rs)
           @ section_of (newline @ ''+ New Benchmarks:'') (messages_in [NewBenchmark] rs)
           @ (if messages_in [Regression] rs = [] then
                [Print [Lit (newline @ check_mark
                             @ '' All benchmarks within acceptable threshold'')],
                 Print [Lit (rule70 @ newline)]]
              else
                section_of (newline @ cross_mark @ '' REGRESSIONS DETECTED (> ''
                            @ fmt_f 0 (fmul p (regression_threshold a) (Finite 100))
                            @ ''% threshold):'')
                  (messages_in [Regression] rs)
                @ [Print [Lit (newline @ rule70)]])
         \<and> (\<exists>items. benchmark_items results = Inr items \<and> length rs = length items
               \<and> (\<forall>i < length items.
                     classify_item p (regression_threshold a) (snd (load_baseline a w))
                       (items ! i) = Inr (rs ! i)))"
proof -
  have "report p (regression_threshold a) (foldl fill_step empty_buckets rs) =
           [Print [Lit (newline @ rule70)],
            Print [Lit ''BENCHMARK COMPARISON REPORT''],
            Print [Lit rule70]]
           @ section_of (newline @ check_mark @ '' Improvements/Within Threshold:'')
               (messages_in [SlowerWithinThreshold, Improvement] rs)
           @ section_of (newline @ ''+ New Benchmarks:'') (messages_in [NewBenchmark] rs)
           @ (if messages_in [Regression] rs = [] then
                [Print [Lit (newline @ check_mark
                             @ '' All benchmarks within acceptable threshold'')],
                 Print [Lit (rule70 @ newline)]]
              else
                section_of (newline @ cross_mark @ '' REGRESSIONS DETECTED (> ''
                            @ fmt_f 0 (fmul p (regression_threshold a) (Finite 100))
                            @ ''% threshold):'')
                  (messages_in [Regression] rs)
                @ [Print [Lit (newline @ rule70)]])"
    by (simp add: report_def foldl_fill_step_buckets section_of_def)
  then show ?thesis
    using main_parsed [OF assms] classification_aligned [OF assms(2)] by simp
qed

theorem report_sections_in_order_witness:
  "results_doc mixed_world = Parsed (results_of mixed_items)
   \<and> trace (main exact_py (Namespace (args0 (1 / 8))) mixed_world) =
       [Exists ''results.json'', Open ''results.json'',
        Exists ''benchmark-baselines.json'', Open ''benchmark-baselines.json'',
        Print [Lit (newline @ rule70)],
        Print [Lit ''BENCHMARK COMPARISON REPORT''],
        Print [Lit rule70],
        Print [Lit (newline @ check_mark @ '' Improvements/Within Threshold:'')],
        Print [Lit ''  '', StrOf (JStr ''b''), Lit '': 12.5% slower (within threshold)''],
        Print [Lit ''  '', StrOf (JStr ''d''), Lit '': 25.0% faster (improvement)''],
        Print [Lit (newline @ ''+ New Benchmarks:'')],
        Print [Lit ''  '', StrOf (JStr ''c''), Lit '': new benchmark (mean: 42ns)''],
        Print [Lit (newline @ cross_mark @ '' REGRESSIONS DETECTED (> 12% threshold):'')],
        Print [Lit ''  '', StrOf (JStr ''a''),
               Lit '': 50.0% regression (baseline: 100ns, current: 150ns)''],
        Print [Lit (newline @ rule70)]]"
proof -
  have h1: "results_doc mixed_world = Parsed (results_of mixed_items)"
    by (simp add: mixed_world_def)
  have l: "fst (load_baseline (args0 (1 / 8)) mixed_world) =
             [Exists ''benchmark-baselines.json'', Open ''benchmark-baselines.json'']"
    by (simp add: load_baseline_def mixed_world_def args0_def)
  have f: "fmt_f 0 (fmul exact_py (regression_threshold (args0 (1 / 8))) (Finite 100)) = ''12''"
    by (simp add: args0_def float_eval fmt_eval)
  have r: "results_file (args0 (1 / 8)) = ''results.json''" by (simp add: args0_def)
  from report_sections_in_order [OF h1 mixed_classification]
  show ?thesis
    by (simp add: h1 l f r messages_in_def section_of_def indent_def)
qed

subsection \<open>One category for each entry\<close>




end
